theory Spec2Isabelle
  imports Main "HOL-Library.AList"
begin

section \<open>The STOMP client of \<^verbatim>\<open>stomp_ws/client.py\<close>\<close>

text \<open>
  The class \<^verbatim>\<open>Client\<close> is embedded as a record of its attributes and one HOL function
  per method, in state-passing style. Three things live outside the class and are made
  explicit:
  \<^item> the dictionaries a caller passes as \<^verbatim>\<open>headers\<close>: Python passes a reference, and the
    methods assign into the dictionary they were given, so the caller's dictionaries live
    in a store (field \<open>heap\<close>) and a \<^verbatim>\<open>headers\<close> argument is an address (or \<^verbatim>\<open>None\<close>);
  \<^item> the effects on the outside world: what is handed to \<^verbatim>\<open>ws.send\<close>, the start and the
    close of the transport, and every call of an application callback are appended, in
    program order, to the field \<open>trace\<close>;
  \<^item> the module \<^verbatim>\<open>frame\<close> (class \<^verbatim>\<open>Frame\<close>), which is not among the sources:
    \<^verbatim>\<open>Frame.unmarshall_single\<close> is a parameter of the dispatch routine, and the trace
    records the three arguments that \<^verbatim>\<open>_transmit\<close> gives to \<^verbatim>\<open>Frame.marshall\<close>.

  Application callbacks are opaque values of a type \<open>'cb\<close>; calling one is recorded in the
  trace and is taken to return normally without touching the client.
  \<^verbatim>\<open>ws.send\<close> and \<^verbatim>\<open>ws.close\<close> are taken to return normally as well.
\<close>

subsection \<open>Python values\<close>

text \<open>A \<^verbatim>\<open>dict\<close> with string keys, in insertion order. \<^verbatim>\<open>d[k] = v\<close> is
  \<^const>\<open>AList.update\<close> (an existing key keeps its place, a new one goes last),
  \<^verbatim>\<open>del d[k]\<close> is \<^const>\<open>AList.delete\<close>, lookup is \<^const>\<open>map_of\<close>.\<close>

type_synonym 'v dict = "(string \<times> 'v) list"

type_synonym addr = nat

datatype error =
    TimeoutError
  | KeyError string
  | TypeError
  | AttributeError
  | CodecError

text \<open>How a call ends: it raises or it returns, and either way it leaves the client (and
  the caller's dictionaries, and the trace) in some state: an exception does not undo the
  assignments made before it.\<close>

datatype ('a, 's) outcome = Raise error 's | Return 'a 's

fun final :: "('a, 's) outcome \<Rightarrow> 's" where
  "final (Raise e s) = s"
| "final (Return x s) = s"

text \<open>\<^verbatim>\<open>str(n)\<close> for a Python \<^verbatim>\<open>int\<close>: decimal digits, with a minus sign when negative.\<close>

definition digit_char :: "nat \<Rightarrow> char" where
  "digit_char d = ''0123456789'' ! d"

fun str_nat :: "nat \<Rightarrow> string" where
  "str_nat n = (if n < 10 then [digit_char n] else str_nat (n div 10) @ [digit_char (n mod 10)])"

declare str_nat.simps [simp del]

definition str :: "int \<Rightarrow> string" where
  "str i = (if i < 0 then CHR ''-'' # str_nat (nat (- i)) else str_nat (nat i))"

subsection \<open>Frames, events and the client state\<close>

text \<open>What the dispatch routine reads of a \<^verbatim>\<open>Frame\<close>: its command and its headers
  (and the body, which it hands on untouched).\<close>

record frame =
  command :: string
  headers :: "string dict"
  body :: string

text \<open>The arguments of a callback call. \<^verbatim>\<open>_on_message\<close> attaches the closures \<^verbatim>\<open>ack\<close> and
  \<^verbatim>\<open>nack\<close> to a delivered MESSAGE frame; both capture \<^verbatim>\<open>messageID\<close> and
  \<^verbatim>\<open>subscription\<close>, which \<open>With_handles\<close> keeps beside the frame.\<close>

datatype call_arg =
    With_frame frame
  | With_handles frame string string
  | With_message string
  | No_args

datatype 'cb event =
    Ws_run_forever
  | Ws_send_frame string "string dict" "string option"
  | Ws_send string
  | Ws_close
  | Call 'cb call_arg

text \<open>An element of the list \<^verbatim>\<open>_results\<close>: what a callback returned (opaque, named by
  the call), or one of the two diagnostic strings.\<close>

datatype 'cb result =
    Result_of 'cb call_arg
  | Unhandled_frame frame
  | Info string

text \<open>The attributes of \<^verbatim>\<open>Client\<close>. \<^verbatim>\<open>__init__\<close> does not assign \<^verbatim>\<open>pingCallback\<close>: the
  attribute exists only after \<^verbatim>\<open>connect\<close>, so its field is \<open>None\<close> while the attribute is
  missing and \<open>Some c\<close> once it holds \<open>c\<close> (which may be Python's \<^verbatim>\<open>None\<close>).
  \<open>ws_on_close\<close> tells whether \<^verbatim>\<open>ws.on_close\<close> still holds \<^verbatim>\<open>_on_close\<close>.\<close>

record 'cb client =
  url :: string
  opened :: bool
  connected :: bool
  counter :: nat
  subscriptions :: "'cb option dict"
  connectCallback :: "'cb option"
  errorCallback :: "'cb option"
  pingCallback :: "'cb option option"
  ws_on_close :: bool
  heap :: "addr \<Rightarrow> string dict"
  trace :: "'cb event list"

definition VERSIONS :: string where
  "VERSIONS = ''1.0,1.1,1.2''"

text \<open>\<^verbatim>\<open>Client(url)\<close>, in a store \<open>h\<close> of caller dictionaries.\<close>

definition init :: "string \<Rightarrow> (addr \<Rightarrow> string dict) \<Rightarrow> 'cb client" where
  "init u h = \<lparr>url = u, opened = False, connected = False, counter = 0, subscriptions = [],
     connectCallback = None, errorCallback = None, pingCallback = None,
     ws_on_close = True, heap = h, trace = []\<rparr>"

text \<open>Two environments to run the client in: a store in which every dictionary is empty,
  and a transport that has signalled before the first poll of \<^verbatim>\<open>_connect\<close>.\<close>

definition no_dicts :: "addr \<Rightarrow> string dict" where
  "no_dicts a = []"

definition at_once :: "nat \<Rightarrow> bool" where
  "at_once k = True"

text \<open>\<^verbatim>\<open>if headers is None: headers = {}\<close>: the dictionary the method works on, and the
  write-back of its final contents. A dictionary made by \<^verbatim>\<open>{}\<close> is local to the call.\<close>

definition load :: "addr option \<Rightarrow> 'cb client \<Rightarrow> string dict" where
  "load hdrs st = (case hdrs of None \<Rightarrow> [] | Some a \<Rightarrow> heap st a)"

definition store :: "addr option \<Rightarrow> string dict \<Rightarrow> 'cb client \<Rightarrow> 'cb client" where
  "store hdrs d st = (case hdrs of None \<Rightarrow> st | Some a \<Rightarrow> st\<lparr>heap := (heap st)(a := d)\<rparr>)"

definition emit :: "'cb event \<Rightarrow> 'cb client \<Rightarrow> 'cb client" where
  "emit e st = st\<lparr>trace := trace st @ [e]\<rparr>"

subsection \<open>Transport callbacks\<close>

definition clean_up :: "'cb client \<Rightarrow> 'cb client" where
  "clean_up st = st\<lparr>connected := False\<rparr>"

definition on_open :: "'cb client \<Rightarrow> 'cb client" where
  "on_open st = st\<lparr>opened := True\<rparr>"

definition on_close :: "'cb client \<Rightarrow> 'cb client" where
  "on_close st =
     clean_up ((if \<not> opened st then st\<lparr>opened := True\<rparr> else st)\<lparr>connected := False\<rparr>)"

definition on_error :: "'cb client \<Rightarrow> 'cb client" where
  "on_error st = (if \<not> opened st then st\<lparr>opened := True\<rparr> else st)"

definition on_ping :: "'cb client \<Rightarrow> 'cb client" where
  "on_ping st = emit (Ws_send ''pong'') st"

definition on_pong :: "'cb client \<Rightarrow> 'cb client" where
  "on_pong st = st"

definition transmit :: "string \<Rightarrow> string dict \<Rightarrow> string option \<Rightarrow> 'cb client \<Rightarrow> 'cb client" where
  "transmit cmd hs b st = emit (Ws_send_frame cmd hs b) st"

subsection \<open>Inbound dispatch\<close>

definition newline :: string where
  "newline = [CHR 0x0A]"

definition on_message ::
  "(string \<Rightarrow> error + frame) \<Rightarrow> string \<Rightarrow> 'cb client
     \<Rightarrow> ('cb result list option, 'cb client) outcome" where
  "on_message unmarshall_single message st =
     (if message = newline then
        (case pingCallback st of
           None \<Rightarrow> Raise AttributeError st
         | Some None \<Rightarrow> Raise TypeError st
         | Some (Some cb) \<Rightarrow> Return None (emit (Call cb (With_message message)) st))
      else
        (case unmarshall_single message of
           Inl e \<Rightarrow> Raise e st
         | Inr fr \<Rightarrow>
             if command fr = ''CONNECTED'' then
               (let st1 = st\<lparr>connected := True\<rparr> in
                case connectCallback st1 of
                  None \<Rightarrow> Return (Some []) st1
                | Some cb \<Rightarrow>
                    Return (Some [Result_of cb (With_frame fr)])
                      (emit (Call cb (With_frame fr)) st1))
             else if command fr = ''MESSAGE'' then
               (case map_of (headers fr) ''subscription'' of
                  None \<Rightarrow> Raise (KeyError ''subscription'') st
                | Some subscription \<Rightarrow>
                    (case map_of (subscriptions st) subscription of
                       Some onreceive \<Rightarrow>
                         (case map_of (headers fr) ''message-id'' of
                            None \<Rightarrow> Raise (KeyError ''message-id'') st
                          | Some messageID \<Rightarrow>
                              (case onreceive of
                                 None \<Rightarrow> Raise TypeError st
                               | Some cb \<Rightarrow>
                                   Return (Some [Result_of cb (With_handles fr messageID subscription)])
                                     (emit (Call cb (With_handles fr messageID subscription)) st)))
                     | None \<Rightarrow> Return (Some [Unhandled_frame fr]) st))
             else if command fr = ''RECEIPT'' then Return (Some []) st
             else if command fr = ''ERROR'' then
               (case errorCallback st of
                  None \<Rightarrow> Return (Some []) st
                | Some cb \<Rightarrow>
                    Return (Some [Result_of cb (With_frame fr)])
                      (emit (Call cb (With_frame fr)) st))
             else Return (Some [Info (''Unhandled received MESSAGE: '' @ command fr)]) st))"

subsection \<open>Public operations\<close>

text \<open>\<^verbatim>\<open>unsubscribe\<close>: \<^verbatim>\<open>del self.subscriptions[id]\<close> raises \<^verbatim>\<open>KeyError\<close> for an absent key,
  before anything is transmitted.\<close>

definition unsubscribe :: "string \<Rightarrow> 'cb client \<Rightarrow> (unit, 'cb client) outcome" where
  "unsubscribe sid st =
     (if sid \<in> fst ` set (subscriptions st)
      then Return () (transmit ''UNSUBSCRIBE'' [(''id'', sid)] None
                        (st\<lparr>subscriptions := AList.delete sid (subscriptions st)\<rparr>))
      else Raise (KeyError sid) st)"

text \<open>The closure \<^verbatim>\<open>unsubscribe\<close> that \<^verbatim>\<open>subscribe\<close> returns reads \<^verbatim>\<open>headers["id"]\<close> when it
  is called: from the caller's dictionary when one was passed, from the local one (whose
  \<^verbatim>\<open>id\<close> is then fixed) otherwise.\<close>

datatype unsub = Unsub_local string | Unsub_shared addr

definition call_unsub :: "unsub \<Rightarrow> 'cb client \<Rightarrow> (unit, 'cb client) outcome" where
  "call_unsub u st =
     (case u of
        Unsub_local sid \<Rightarrow> unsubscribe sid st
      | Unsub_shared a \<Rightarrow>
          (case map_of (heap st a) ''id'' of
             None \<Rightarrow> Raise (KeyError ''id'') st
           | Some sid \<Rightarrow> unsubscribe sid st))"

text \<open>\<^verbatim>\<open>"sub-" + str(self.counter)\<close>\<close>

definition sub_id :: "nat \<Rightarrow> string" where
  "sub_id n = ''sub-'' @ str (int n)"

definition subscribe ::
  "string \<Rightarrow> 'cb option \<Rightarrow> addr option \<Rightarrow> 'cb client \<Rightarrow> (string \<times> unsub, 'cb client) outcome" where
  "subscribe destination callback hdrs st =
     (let h0 = load hdrs st;
          minted = (''id'' \<notin> fst ` set h0);
          h1 = (if minted then AList.update ''id'' (sub_id (counter st)) h0 else h0);
          st1 = (if minted then st\<lparr>counter := counter st + 1\<rparr> else st);
          h2 = AList.update ''destination'' destination h1;
          st2 = store hdrs h2 st1
      in case map_of h2 ''id'' of
           None \<Rightarrow> Raise (KeyError ''id'') st2
         | Some sid \<Rightarrow>
             Return (sid, case hdrs of None \<Rightarrow> Unsub_local sid | Some a \<Rightarrow> Unsub_shared a)
               (transmit ''SUBSCRIBE'' h2 None
                  (st2\<lparr>subscriptions := AList.update sid callback (subscriptions st2)\<rparr>)))"

definition send :: "string \<Rightarrow> addr option \<Rightarrow> string option \<Rightarrow> 'cb client \<Rightarrow> 'cb client" where
  "send destination hdrs b st =
     (let h = AList.update ''destination'' destination (load hdrs st);
          b1 = (case b of None \<Rightarrow> [] | Some s \<Rightarrow> s)
      in transmit ''SEND'' h (Some b1) (store hdrs h st))"

definition ack :: "string \<Rightarrow> string \<Rightarrow> addr option \<Rightarrow> 'cb client \<Rightarrow> 'cb client" where
  "ack message_id subscription hdrs st =
     (let h = AList.update ''subscription'' subscription
                (AList.update ''message-id'' message_id (load hdrs st))
      in transmit ''ACK'' h None (store hdrs h st))"

definition nack :: "string \<Rightarrow> string \<Rightarrow> addr option \<Rightarrow> 'cb client \<Rightarrow> 'cb client" where
  "nack message_id subscription hdrs st =
     (let h = AList.update ''subscription'' subscription
                (AList.update ''message-id'' message_id (load hdrs st))
      in transmit ''NACK'' h None (store hdrs h st))"

text \<open>\<^verbatim>\<open>for id in subscription_ids: self.unsubscribe(id)\<close>, over the snapshot of the keys.\<close>

fun unsubscribe_all :: "string list \<Rightarrow> 'cb client \<Rightarrow> (unit, 'cb client) outcome" where
  "unsubscribe_all [] st = Return () st"
| "unsubscribe_all (sid # ids) st =
     (case unsubscribe sid st of
        Raise e st1 \<Rightarrow> Raise e st1
      | Return u st1 \<Rightarrow> unsubscribe_all ids st1)"

text \<open>\<^verbatim>\<open>disconnect\<close> up to and including \<^verbatim>\<open>self._clean_up()\<close>.\<close>

definition disconnect_teardown :: "addr option \<Rightarrow> 'cb client \<Rightarrow> (unit, 'cb client) outcome" where
  "disconnect_teardown hdrs st =
     (case unsubscribe_all (map fst (subscriptions st)) st of
        Raise e st1 \<Rightarrow> Raise e st1
      | Return u st1 \<Rightarrow>
          Return () (clean_up (emit Ws_close
                 ((transmit ''DISCONNECT'' (load hdrs st1) None st1)\<lparr>ws_on_close := False\<rparr>))))"

definition disconnect :: "'cb option \<Rightarrow> addr option \<Rightarrow> 'cb client \<Rightarrow> (unit, 'cb client) outcome" where
  "disconnect disconnectCallback hdrs st =
     (case disconnect_teardown hdrs st of
        Raise e st1 \<Rightarrow> Raise e st1
      | Return u st1 \<Rightarrow>
          (case disconnectCallback of
             None \<Rightarrow> Return () st1
           | Some cb \<Rightarrow> Return () (emit (Call cb No_args) st1)))"

subsection \<open>Connecting\<close>

text \<open>The polling loop of \<^verbatim>\<open>_connect\<close>. The flag \<^verbatim>\<open>opened\<close> is written by the transport's
  thread, so what the loop reads is given from outside: \<open>reads k\<close> is the value of
  \<^verbatim>\<open>self.opened\<close> at the \<open>k\<close>-th evaluation of the loop condition (counting from 0).
  Each round sleeps a quarter of a second and adds 250 to \<^verbatim>\<open>total_ms\<close>. The loop may run
  forever, which is the value \<open>None\<close>; otherwise the result tells how the loop was left
  and the value of \<^verbatim>\<open>total_ms\<close> then.\<close>

datatype wait = Opened int | Timed_out int

partial_function (option) wait_opened :: "(nat \<Rightarrow> bool) \<Rightarrow> int \<Rightarrow> nat \<Rightarrow> int \<Rightarrow> wait option" where
  "wait_opened reads timeout k total_ms =
     (if reads k then Some (Opened total_ms)
      else if 0 < timeout \<and> timeout < total_ms + 250 then Some (Timed_out (total_ms + 250))
      else wait_opened reads timeout (Suc k) (total_ms + 250))"

text \<open>\<^verbatim>\<open>_connect\<close>: start the transport's thread, then poll. \<open>signalled k\<close> tells whether
  the transport has called one of \<^verbatim>\<open>_on_open\<close>, \<^verbatim>\<open>_on_error\<close>, \<^verbatim>\<open>_on_close\<close> by the
  \<open>k\<close>-th evaluation of the loop condition; all three set \<^verbatim>\<open>opened\<close>, and nothing ever
  clears it. The arguments \<^verbatim>\<open>ping_interval\<close>, \<^verbatim>\<open>ping_timeout\<close> and \<^verbatim>\<open>verify_ssl\<close> only
  travel to \<^verbatim>\<open>run_forever\<close>. The timeout is a Python \<^verbatim>\<open>int\<close>, in milliseconds.\<close>

definition private_connect ::
  "int \<Rightarrow> (nat \<Rightarrow> bool) \<Rightarrow> 'cb client \<Rightarrow> (unit, 'cb client) outcome option" where
  "private_connect timeout signalled st =
     (let st1 = emit Ws_run_forever st in
      case wait_opened (\<lambda>k. opened st1 \<or> signalled k) timeout 0 0 of
        None \<Rightarrow> None
      | Some (Timed_out ms) \<Rightarrow> Some (Raise TimeoutError st1)
      | Some (Opened ms) \<Rightarrow> Some (Return () (st1\<lparr>opened := True\<rparr>)))"

text \<open>\<^verbatim>\<open>connect\<close>. An argument that is \<^verbatim>\<open>None\<close> is \<open>None\<close>; \<^verbatim>\<open>ping_interval\<close> is a
  Python \<^verbatim>\<open>int\<close> (seconds), so that the f-string prints \<^verbatim>\<open>ping_interval*1000\<close> as a
  decimal numeral.\<close>

definition connect ::
  "string option \<Rightarrow> string option \<Rightarrow> string option \<Rightarrow> addr option
     \<Rightarrow> 'cb option \<Rightarrow> 'cb option \<Rightarrow> 'cb option \<Rightarrow> int \<Rightarrow> int \<Rightarrow> (nat \<Rightarrow> bool)
     \<Rightarrow> 'cb client \<Rightarrow> (unit, 'cb client) outcome option" where
  "connect login passcode host hdrs connectCb errorCb pingCb connect_timeout ping_interval
       signalled st =
     (case private_connect connect_timeout signalled st of
        None \<Rightarrow> None
      | Some (Raise e st1) \<Rightarrow> Some (Raise e st1)
      | Some (Return u st1) \<Rightarrow>
          (let h0 = load hdrs st1;
               h1 = AList.update ''host'' (case host of None \<Rightarrow> url st1 | Some x \<Rightarrow> x) h0;
               h2 = AList.update ''accept-version'' VERSIONS h1;
               h3 = AList.update ''heart-beat''
                      (str (ping_interval * 1000) @ '','' @ str (ping_interval * 1000)) h2;
               h4 = (case login of None \<Rightarrow> h3 | Some l \<Rightarrow> AList.update ''login'' l h3);
               h5 = (case passcode of None \<Rightarrow> h4 | Some p \<Rightarrow> AList.update ''passcode'' p h4);
               st2 = (store hdrs h5 st1)\<lparr>connectCallback := connectCb, errorCallback := errorCb,
                        pingCallback := Some pingCb\<rparr>
           in Some (Return () (transmit ''CONNECT'' h5 None st2))))"

subsection \<open>The engine as a labelled transition system\<close>

text \<open>One transition per callback of the transport and per call of a public operation
  that ends, by returning or by raising; the target is the state the call leaves behind.
  The transport calls \<^verbatim>\<open>_on_close\<close> only while \<^verbatim>\<open>ws.on_close\<close> holds it.\<close>

datatype 'cb action =
    Transport_open
  | Transport_error
  | Transport_close
  | Transport_ping
  | Transport_pong
  | Transport_message string
  | Op_connect "string option" "string option" "string option" "addr option"
      "'cb option" "'cb option" "'cb option" int int "nat \<Rightarrow> bool"
  | Op_disconnect "'cb option" "addr option"
  | Op_send string "addr option" "string option"
  | Op_subscribe string "'cb option" "addr option"
  | Op_unsubscribe string
  | Op_ack string string "addr option"
  | Op_nack string string "addr option"

inductive step :: "(string \<Rightarrow> error + frame) \<Rightarrow> 'cb client \<Rightarrow> 'cb action \<Rightarrow> 'cb client \<Rightarrow> bool"
  for unm :: "string \<Rightarrow> error + frame" where
  s_open: "step unm st Transport_open (on_open st)"
| s_error: "step unm st Transport_error (on_error st)"
| s_close: "ws_on_close st \<Longrightarrow> step unm st Transport_close (on_close st)"
| s_ping: "step unm st Transport_ping (on_ping st)"
| s_pong: "step unm st Transport_pong (on_pong st)"
| s_message: "step unm st (Transport_message m) (final (on_message unm m st))"
| s_connect: "connect lg pc ho hs c1 c2 c3 t p sg st = Some out
     \<Longrightarrow> step unm st (Op_connect lg pc ho hs c1 c2 c3 t p sg) (final out)"
| s_disconnect: "step unm st (Op_disconnect cb hs) (final (disconnect cb hs st))"
| s_send: "step unm st (Op_send d hs b) (send d hs b st)"
| s_subscribe: "step unm st (Op_subscribe d cb hs) (final (subscribe d cb hs st))"
| s_unsubscribe: "step unm st (Op_unsubscribe sid) (final (unsubscribe sid st))"
| s_ack: "step unm st (Op_ack m s hs) (ack m s hs st)"
| s_nack: "step unm st (Op_nack m s hs) (nack m s hs st)"

inductive reachable :: "(string \<Rightarrow> error + frame) \<Rightarrow> 'cb client \<Rightarrow> bool"
  for unm :: "string \<Rightarrow> error + frame" where
  r_init: "reachable unm (init u h)"
| r_step: "reachable unm st \<Longrightarrow> step unm st a st' \<Longrightarrow> reachable unm st'"

subsection \<open>A caller subscribing several times\<close>

text \<open>The calls \<^verbatim>\<open>subscribe(d, cb, h)\<close> of a list made one after the other, each on the
  client the one before left, collecting the ids returned; it stops at the first call
  that raises. \<open>no_id_supplied\<close> says that at each call, when it is made, the
  dictionary passed has no key \<^verbatim>\<open>id\<close> (a dictionary passed twice has one the second
  time, written there by the first call).\<close>

fun subscribe_seq ::
  "(string \<times> 'cb option \<times> addr option) list \<Rightarrow> 'cb client \<Rightarrow> (string list, 'cb client) outcome" where
  "subscribe_seq [] st = Return [] st"
| "subscribe_seq ((d, cb, h) # cs) st =
     (case subscribe d cb h st of
        Raise e st1 \<Rightarrow> Raise e st1
      | Return r st1 \<Rightarrow>
          (case subscribe_seq cs st1 of
             Raise e st2 \<Rightarrow> Raise e st2
           | Return sids st2 \<Rightarrow> Return (fst r # sids) st2))"

fun no_id_supplied :: "(string \<times> 'cb option \<times> addr option) list \<Rightarrow> 'cb client \<Rightarrow> bool" where
  "no_id_supplied [] st = True"
| "no_id_supplied ((d, cb, h) # cs) st =
     (''id'' \<notin> fst ` set (load h st) \<and> no_id_supplied cs (final (subscribe d cb h st)))"

section \<open>Properties\<close>

subsection \<open>Auxiliary facts\<close>

lemma emit_simps [simp]:
  "trace (emit e st) = trace st @ [e]"
  "subscriptions (emit e st) = subscriptions st"
  "connected (emit e st) = connected st"
  "opened (emit e st) = opened st"
  "counter (emit e st) = counter st"
  "heap (emit e st) = heap st"
  "url (emit e st) = url st"
  "pingCallback (emit e st) = pingCallback st"
  "connectCallback (emit e st) = connectCallback st"
  "errorCallback (emit e st) = errorCallback st"
  "ws_on_close (emit e st) = ws_on_close st"
  by (simp_all add: emit_def)

lemma delete_as_filter: "AList.delete k d = filter (\<lambda>p. fst p \<noteq> k) d"
  by (simp add: AList.delete_eq case_prod_unfold eq_commute [of k])

lemma wait_opened_now: "reads k \<Longrightarrow> wait_opened reads timeout k t = Some (Opened t)"
  by (simp add: wait_opened.simps)

lemma digit_char_inj: "a < 10 \<Longrightarrow> b < 10 \<Longrightarrow> digit_char a = digit_char b \<Longrightarrow> a = b"
proof -
  have d: "distinct ''0123456789''" by simp
  assume "a < 10" "b < 10" "digit_char a = digit_char b"
  then show "a = b"
    using nth_eq_iff_index_eq [OF d, of a b] by (simp add: digit_char_def)
qed

lemma str_nat_nonempty [simp]: "str_nat n \<noteq> []" "[] \<noteq> str_nat n"
  by (subst str_nat.simps, simp)+

lemma str_nat_inj: "str_nat n = str_nat m \<Longrightarrow> n = m"
proof (induction n arbitrary: m rule: str_nat.induct)
  case (1 n)
  show ?case
  proof (cases "n < 10")
    case True
    show ?thesis
    proof (cases "m < 10")
      case True
      with \<open>n < 10\<close> "1.prems" show ?thesis
        by (simp add: str_nat.simps [of n] str_nat.simps [of m] digit_char_inj)
    next
      case False
      with \<open>n < 10\<close> "1.prems" show ?thesis
        by (simp add: str_nat.simps [of n] str_nat.simps [of m] )
    qed
  next
    case False
    show ?thesis
    proof (cases "m < 10")
      case True
      with \<open>\<not> n < 10\<close> "1.prems" show ?thesis
        by (simp add: str_nat.simps [of n] str_nat.simps [of m] )
    next
      case mf: False
      with False "1.prems" have eq: "str_nat (n div 10) = str_nat (m div 10)"
        and dg: "digit_char (n mod 10) = digit_char (m mod 10)"
        by (simp_all add: str_nat.simps [of n] str_nat.simps [of m])
      from "1.IH" [OF False eq] have "n div 10 = m div 10" .
      moreover from dg have "n mod 10 = m mod 10"
        by (rule digit_char_inj [rotated 2]) simp_all
      ultimately show ?thesis
        by (metis div_mult_mod_eq)
    qed
  qed
qed

lemma str_int_inj: "str (int n) = str (int m) \<Longrightarrow> n = m"
  by (simp add: str_def str_nat_inj)

lemma str_numeral_examples:
  "str 0 = ''0''" "str 1 = ''1''" "str 2 = ''2''"
  by (simp_all add: str_def str_nat.simps digit_char_def)

lemma sub_id_inj: "sub_id n = sub_id m \<Longrightarrow> n = m"
  by (simp add: sub_id_def str_int_inj)

lemma subscribe_minting:
  assumes "''id'' \<notin> fst ` set (load h st)"
  shows "\<exists>u st'. subscribe d cb h st = Return (sub_id (counter st), u) st'
           \<and> counter st' = Suc (counter st)"
  using assms
  by (simp add: subscribe_def Let_def AList.update_conv' store_def transmit_def
      split: option.splits)

lemma minted_ids_distinct: "distinct (map sub_id [c..<c + n])"
  by (auto simp: distinct_map intro!: inj_onI dest: sub_id_inj)

lemma subscribe_seq_minting:
  "no_id_supplied cs st \<Longrightarrow>
   \<exists>st'. subscribe_seq cs st = Return (map sub_id [counter st..<counter st + length cs]) st'
        \<and> counter st' = counter st + length cs"
proof (induction cs arbitrary: st)
  case Nil
  then show ?case by simp
next
  case (Cons c cs)
  obtain d cb h where c: "c = (d, cb, h)" by (cases c)
  from Cons.prems c have no_id: "''id'' \<notin> fst ` set (load h st)"
    and rest: "no_id_supplied cs (final (subscribe d cb h st))"
    by simp_all
  from subscribe_minting [OF no_id, of d cb] obtain u st1
    where s1: "subscribe d cb h st = Return (sub_id (counter st), u) st1"
      and c1: "counter st1 = Suc (counter st)"
    by blast
  from rest s1 have "no_id_supplied cs st1" by simp
  from Cons.IH [OF this] obtain st2
    where s2: "subscribe_seq cs st1 = Return (map sub_id [counter st1..<counter st1 + length cs]) st2"
      and c2: "counter st2 = counter st1 + length cs"
    by blast
  from s1 s2 c1 c2 c show ?case
    by (simp add: upt_conv_Cons del: upt_Suc)
qed

lemma unsubscribe_all_distinct:
  "distinct ids \<Longrightarrow> set ids \<subseteq> fst ` set (subscriptions st) \<Longrightarrow>
   unsubscribe_all ids st =
     Return () (st\<lparr>subscriptions := filter (\<lambda>p. fst p \<notin> set ids) (subscriptions st),
                   trace := trace st @ map (\<lambda>sid. Ws_send_frame ''UNSUBSCRIBE'' [(''id'', sid)] None) ids\<rparr>)"
proof (induction ids arbitrary: st)
  case Nil
  then show ?case by simp
next
  case (Cons sid ids)
  let ?st1 = "st\<lparr>subscriptions := filter (\<lambda>p. fst p \<noteq> sid) (subscriptions st),
                  trace := trace st @ [Ws_send_frame ''UNSUBSCRIBE'' [(''id'', sid)] None]\<rparr>"
  from Cons.prems have here: "unsubscribe sid st = Return () ?st1"
    by (simp add: unsubscribe_def transmit_def emit_def delete_as_filter)
  from Cons.prems have "distinct ids" and "set ids \<subseteq> fst ` set (subscriptions ?st1)"
    by (fastforce simp: image_iff)+
  from Cons.IH [OF this] here show ?case
    by (simp add: conj_commute)
qed

lemma wait_opened_Some:
  assumes "wait_opened reads timeout k t = Some w"
  shows "(timeout \<le> 0 \<longrightarrow> (\<exists>ms. w = Opened ms)) \<and> ((\<forall>j. \<not> reads j) \<longrightarrow> (\<exists>ms. w = Timed_out ms))"
  by (rule wait_opened.raw_induct
        [where P = "\<lambda>reads timeout k t w.
            (timeout \<le> 0 \<longrightarrow> (\<exists>ms. w = Opened ms)) \<and> ((\<forall>j. \<not> reads j) \<longrightarrow> (\<exists>ms. w = Timed_out ms))",
         OF _ assms])
     (auto split: if_splits)

lemma wait_opened_never_read:
  assumes "\<forall>j. \<not> reads j" and "timeout \<le> 0"
  shows "wait_opened reads timeout k t = None"
proof (cases "wait_opened reads timeout k t")
  case None
  then show ?thesis .
next
  case (Some w)
  from wait_opened_Some [OF Some] assms show ?thesis by auto
qed

lemma wait_opened_first_read:
  "reads (k + n) \<Longrightarrow> \<forall>j<n. \<not> reads (k + j) \<Longrightarrow> timeout \<le> 0 \<Longrightarrow>
   wait_opened reads timeout k t = Some (Opened (t + 250 * int n))"
proof (induction n arbitrary: k t)
  case 0
  then show ?case by (simp add: wait_opened_now)
next
  case (Suc n)
  from Suc.prems have "\<not> reads k" by force
  moreover from Suc.prems have "reads (Suc k + n)" and "\<forall>j<n. \<not> reads (Suc k + j)"
    by (auto dest: spec [of _ "Suc _"])
  from Suc.IH [OF this \<open>timeout \<le> 0\<close>, of "t + 250"]
  have "wait_opened reads timeout (Suc k) (t + 250) = Some (Opened (t + 250 + 250 * int n))" .
  ultimately show ?case
    using \<open>timeout \<le> 0\<close> by (subst wait_opened.simps) (simp add: algebra_simps)
qed

lemma wait_opened_times_out:
  "\<forall>j. \<not> reads j \<Longrightarrow> 0 < timeout \<Longrightarrow>
   timeout - 250 * (int n + 1) < t \<Longrightarrow> t \<le> timeout - 250 * int n \<Longrightarrow>
   wait_opened reads timeout k t = Some (Timed_out (t + 250 * (int n + 1)))"
proof (induction n arbitrary: k t)
  case 0
  then show ?case by (subst wait_opened.simps) simp
next
  case (Suc n)
  from Suc.prems have "wait_opened reads timeout (Suc k) (t + 250)
      = Some (Timed_out (t + 250 + 250 * (int n + 1)))"
    by (intro Suc.IH) simp_all
  with Suc.prems show ?case
    by (subst wait_opened.simps) (simp add: algebra_simps)
qed

lemma wait_opened_times_out_from_0:
  assumes "\<forall>j. \<not> reads j" and "0 < timeout"
  shows "wait_opened reads timeout 0 0 = Some (Timed_out (250 * (timeout div 250 + 1)))"
proof -
  define n where "n = nat (timeout div 250)"
  with assms have n: "int n = timeout div 250" by simp
  have "timeout - 250 * (int n + 1) < 0" and "0 \<le> timeout - 250 * int n"
    unfolding n by presburger+
  from wait_opened_times_out [OF assms this, of 0] show ?thesis
    by (simp add: n)
qed

lemma str_5000: "str 5000 = ''5000''"
  by (simp add: str_def str_nat.simps digit_char_def)

lemma unsubscribe_all_frame:
  "heap (final (unsubscribe_all ids st)) = heap st"
  "connected (final (unsubscribe_all ids st)) = connected st"
  by (induction ids arbitrary: st) (simp_all add: unsubscribe_def transmit_def)

lemma connect_returns:
  assumes "connect login passcode host hdrs c1 c2 c3 T p signalled st = Some (Return u st')"
  shows "\<exists>h5. st' = (store hdrs h5 (emit Ws_run_forever st))
            \<lparr>opened := True, connectCallback := c1, errorCallback := c2, pingCallback := Some c3,
              trace := trace st @ [Ws_run_forever, Ws_send_frame ''CONNECT'' h5 None]\<rparr>
          \<and> h5 = (case passcode of None \<Rightarrow> (\<lambda>d. d) | Some q \<Rightarrow> AList.update ''passcode'' q)
                ((case login of None \<Rightarrow> (\<lambda>d. d) | Some l \<Rightarrow> AList.update ''login'' l)
                  (AList.update ''heart-beat'' (str (p * 1000) @ '','' @ str (p * 1000))
                    (AList.update ''accept-version'' VERSIONS
                      (AList.update ''host'' (case host of None \<Rightarrow> url st | Some x \<Rightarrow> x)
                        (load hdrs st)))))"
  using assms
  by (auto simp: connect_def private_connect_def Let_def load_def store_def transmit_def emit_def
      split: option.splits wait.splits)

lemma on_message_connected:
  assumes "connected (final (on_message unm m st))" and "\<not> connected st"
  shows "\<exists>fr. m \<noteq> newline \<and> unm m = Inr fr \<and> command fr = ''CONNECTED''"
  using assms
  by (auto simp: on_message_def Let_def split: if_splits option.splits sum.splits)

lemma connect_connected:
  assumes "connect lg pc ho hs c1 c2 c3 T p sg st = Some out"
  shows "connected (final out) = connected st"
  using assms
  by (auto simp: connect_def private_connect_def Let_def store_def transmit_def
      split: option.splits wait.splits)

lemma disconnect_connected: "connected (final (disconnect cb hs st)) \<Longrightarrow> connected st"
  using unsubscribe_all_frame(2) [of "map fst (subscriptions st)" st]
  by (auto simp: disconnect_def disconnect_teardown_def clean_up_def transmit_def
      split: outcome.splits option.splits)

lemma operations_connected:
  "connected (send d hs b st) = connected st"
  "connected (ack m s hs st) = connected st"
  "connected (nack m s hs st) = connected st"
  "connected (final (subscribe d cb hs st)) = connected st"
  "connected (final (unsubscribe sid st)) = connected st"
  "connected (on_open st) = connected st"
  "connected (on_error st) = connected st"
  "connected (on_ping st) = connected st"
  "connected (on_pong st) = connected st"
  "\<not> connected (on_close st)"
  by (simp_all add: send_def ack_def nack_def subscribe_def unsubscribe_def on_open_def
      on_error_def on_ping_def on_pong_def on_close_def clean_up_def Let_def store_def
      transmit_def split: option.splits)

text \<open>The registry is a \<^verbatim>\<open>dict\<close>: in every state the engine can reach, no key occurs
  twice in it.\<close>

lemma unsubscribe_all_distinct_keys:
  "distinct (map fst (subscriptions st)) \<Longrightarrow>
   distinct (map fst (subscriptions (final (unsubscribe_all ids st))))"
  by (induction ids arbitrary: st)
    (simp_all add: unsubscribe_def transmit_def AList.distinct_delete)

lemma step_distinct_keys:
  assumes "step unm st a st'" and "distinct (map fst (subscriptions st))"
  shows "distinct (map fst (subscriptions st'))"
  using assms
proof cases
  case (s_message m)
  with assms(2) show ?thesis
    by (auto simp: on_message_def Let_def split: if_splits option.splits sum.splits)
next
  case (s_connect lg pc ho hs c1 c2 c3 t p sg out)
  with assms(2) show ?thesis
    by (auto simp: connect_def private_connect_def Let_def store_def transmit_def
      split: option.splits wait.splits)
next
  case (s_disconnect cb hs)
  with assms(2) unsubscribe_all_distinct_keys [of st "map fst (subscriptions st)"] show ?thesis
    by (auto simp: disconnect_def disconnect_teardown_def clean_up_def transmit_def
      split: outcome.splits option.splits)
next
  case (s_subscribe d cb hs)
  with assms(2) show ?thesis
    by (auto simp: subscribe_def Let_def store_def transmit_def AList.distinct_update
      split: option.splits)
next
  case (s_unsubscribe sid)
  with assms(2) show ?thesis
    by (simp add: unsubscribe_def transmit_def AList.distinct_delete)
qed (simp_all add: send_def ack_def nack_def on_open_def on_error_def on_ping_def on_pong_def
       on_close_def clean_up_def Let_def store_def transmit_def split: option.splits)

lemma reachable_distinct_keys:
  "reachable unm st \<Longrightarrow> distinct (map fst (subscriptions st))"
  by (induction rule: reachable.induct) (simp_all add: init_def step_distinct_keys)

subsection \<open>Unsubscribing\<close>

text \<open>
  C7. For an id that is not a key of the registry, \<^verbatim>\<open>unsubscribe(id)\<close> fails: the
  \<^verbatim>\<open>del\<close> raises \<^verbatim>\<open>KeyError\<close> (the code's exception for the spec's UnknownSubscription),
  and the client is left exactly as it was: nothing is transmitted and the registry is
  unchanged. For an id that is a key, the call returns, the registry loses the entries
  of that key and no other (as a mapping it is the old one with the id undefined), the
  trace grows by one UNSUBSCRIBE frame whose only header is \<^verbatim>\<open>id\<close> with that id, and
  nothing else changes.
\<close>

theorem unsubscribe_absent_or_present:
  "(sid \<notin> fst ` set (subscriptions st) \<longrightarrow> unsubscribe sid st = Raise (KeyError sid) st)
   \<and> (sid \<in> fst ` set (subscriptions st) \<longrightarrow>
        unsubscribe sid st =
          Return () (st\<lparr>subscriptions := filter (\<lambda>p. fst p \<noteq> sid) (subscriptions st),
                        trace := trace st @ [Ws_send_frame ''UNSUBSCRIBE'' [(''id'', sid)] None]\<rparr>)
        \<and> map_of (filter (\<lambda>p. fst p \<noteq> sid) (subscriptions st))
            = (map_of (subscriptions st))(sid := None))"
  by (simp add: unsubscribe_def transmit_def emit_def delete_as_filter [symmetric]
      AList.delete_conv')

theorem unsubscribe_absent_or_present_witness:
  "unsubscribe ''sub-7'' (init ''ws://broker'' (\<lambda>a. []) :: nat client)
     = Raise (KeyError ''sub-7'') (init ''ws://broker'' (\<lambda>a. []))
   \<and> unsubscribe ''sub-0''
        ((init ''ws://broker'' (\<lambda>a. []))\<lparr>subscriptions := [(''sub-0'', Some (1::nat)), (''sub-1'', None)]\<rparr>)
     = Return () ((init ''ws://broker'' (\<lambda>a. []))\<lparr>subscriptions := [(''sub-1'', None)],
          trace := [Ws_send_frame ''UNSUBSCRIBE'' [(''id'', ''sub-0'')] None]\<rparr>)"
  using unsubscribe_absent_or_present [of "''sub-7''" "init ''ws://broker'' (\<lambda>a. []) :: nat client"]
    unsubscribe_absent_or_present [of "''sub-0''"
      "(init ''ws://broker'' (\<lambda>a. []))\<lparr>subscriptions := [(''sub-0'', Some (1::nat)), (''sub-1'', None)]\<rparr>"]
  by (simp add: init_def)

subsection \<open>Dispatch of inbound messages\<close>

text \<open>
  A MESSAGE frame whose \<^verbatim>\<open>subscription\<close> header names an id that is not a key of the
  registry: the dispatch returns, its result list holds the one unhandled-message
  diagnostic, and the client is left exactly as it was.
\<close>

lemma on_message_unregistered_id:
  assumes "m \<noteq> newline" and "unm m = Inr fr" and "command fr = ''MESSAGE''"
    and "map_of (headers fr) ''subscription'' = Some sid"
    and "sid \<notin> fst ` set (subscriptions st)"
  shows "on_message unm m st = Return (Some [Unhandled_frame fr]) st"
proof -
  from assms(5) have "map_of (subscriptions st) sid = None"
    by (simp add: map_of_eq_None_iff)
  with assms(1-4) show ?thesis
    by (simp add: on_message_def)
qed

text \<open>
  C6. A MESSAGE frame for an id that has no callback. \<^verbatim>\<open>subscribe\<close> takes its callback
  with the default \<^verbatim>\<open>None\<close> and stores it under the id, so after
  \<^verbatim>\<open>subscribe('/queue/a')\<close> the id sub-0 is a key of the registry with no callback.
  The dispatch of a MESSAGE frame for sub-0 then takes the branch of a registered id and
  calls \<^verbatim>\<open>onreceive(frame)\<close> without the \<^verbatim>\<open>is not None\<close> test that guards
  \<^verbatim>\<open>_connectCallback\<close> and \<^verbatim>\<open>errorCallback\<close>: it raises \<^verbatim>\<open>TypeError\<close> instead of
  reporting the frame as unhandled.
\<close>

theorem message_for_subscription_without_callback_raises:
  "subscribe ''/queue/a'' None None (init u h)
     = Return (''sub-0'', Unsub_local ''sub-0'')
         ((init u h)\<lparr>counter := 1, subscriptions := [(''sub-0'', None)],
            trace := [Ws_send_frame ''SUBSCRIBE''
                        [(''id'', ''sub-0''), (''destination'', ''/queue/a'')] None]\<rparr>)
   \<and> on_message
        (\<lambda>m. Inr \<lparr>command = ''MESSAGE'',
                   headers = [(''subscription'', ''sub-0''), (''message-id'', ''42'')], body = m\<rparr>)
        ''x''
        ((init u h)\<lparr>counter := 1, subscriptions := [(''sub-0'', None)],
           trace := [Ws_send_frame ''SUBSCRIBE''
                       [(''id'', ''sub-0''), (''destination'', ''/queue/a'')] None]\<rparr>)
     = Raise TypeError
         ((init u h)\<lparr>counter := 1, subscriptions := [(''sub-0'', None)],
            trace := [Ws_send_frame ''SUBSCRIBE''
                        [(''id'', ''sub-0''), (''destination'', ''/queue/a'')] None]\<rparr>)"
  by (simp add: subscribe_def on_message_def init_def Let_def load_def store_def transmit_def
      emit_def sub_id_def str_numeral_examples newline_def)

text \<open>
  C4. On the message that is exactly one newline the dispatch never applies the
  parser: its outcome is the same whatever the parser is, and it is the outcome of the
  heartbeat branch (a call of the heartbeat callback, or the failure of that call),
  which returns \<^verbatim>\<open>None\<close> and never a list of frame results.
\<close>

theorem heartbeat_never_unmarshalled:
  "on_message unm newline st = on_message unm' newline st
   \<and> on_message unm newline st =
       (case pingCallback st of
          None \<Rightarrow> Raise AttributeError st
        | Some None \<Rightarrow> Raise TypeError st
        | Some (Some cb) \<Rightarrow> Return None (emit (Call cb (With_message newline)) st))"
  by (simp add: on_message_def)

text \<open>
  C3. The heartbeat without a heartbeat callback. \<^verbatim>\<open>connect\<close> stores its argument
  \<^verbatim>\<open>pingCallback\<close>, whose default is \<^verbatim>\<open>None\<close>, and the heartbeat branch calls the
  attribute without the \<^verbatim>\<open>is not None\<close> test that guards \<^verbatim>\<open>_connectCallback\<close> and
  \<^verbatim>\<open>errorCallback\<close>. So after a \<^verbatim>\<open>connect\<close> with no heartbeat callback the dispatch
  of a newline raises \<^verbatim>\<open>TypeError\<close>; on a client that was never connected the attribute
  does not exist and the dispatch raises \<^verbatim>\<open>AttributeError\<close>.
\<close>

theorem heartbeat_without_callback_raises:
  "on_message unm newline (init u h) = Raise AttributeError (init u h)
   \<and> (\<exists>st. connect None None None None None None None 0 0 (\<lambda>k. True) (init u h)
               = Some (Return () st)
          \<and> on_message unm newline st = Raise TypeError st)"
  by (simp add: on_message_def init_def connect_def private_connect_def wait_opened_now
      Let_def load_def store_def transmit_def emit_def)

text \<open>
  C5. Subscribing without an \<^verbatim>\<open>id\<close> header, any number of times in a row: the calls
  return, and the ids they return are \<open>sub_id c\<close>, \<open>sub_id (c + 1)\<close>, ... in call
  order, \<open>c\<close> being the counter before the first call; these ids are pairwise distinct.
  On a new client \<open>c\<close> is 0, so the ids are sub-0, sub-1, ... .
  Dispatching a MESSAGE frame whose \<^verbatim>\<open>subscription\<close> header is a key of the registry
  calls nothing but the callback stored under that key: every event the dispatch adds to
  the trace is a call of that callback, and when the frame has a \<^verbatim>\<open>message-id\<close> header
  and the stored callback is not \<^verbatim>\<open>None\<close> the dispatch adds exactly one such call, with
  the frame and its handles, and returns that call's result.
\<close>

theorem minted_ids_and_routing:
  "(no_id_supplied cs st \<longrightarrow>
      (\<exists>st'. subscribe_seq cs st = Return (map sub_id [counter st..<counter st + length cs]) st')
      \<and> distinct (map sub_id [counter st..<counter st + length cs]))
   \<and> (no_id_supplied cs (init u h) \<longrightarrow>
      (\<exists>st'. subscribe_seq cs (init u h) = Return (map sub_id [0..<length cs]) st'))
   \<and> (m \<noteq> newline \<and> unm m = Inr fr \<and> command fr = ''MESSAGE''
        \<and> map_of (headers fr) ''subscription'' = Some sid
        \<and> map_of (subscriptions st) sid = Some reg \<longrightarrow>
      (\<exists>calls. trace (final (on_message unm m st)) = trace st @ calls
          \<and> (\<forall>e \<in> set calls. \<exists>cb a. e = Call cb a \<and> reg = Some cb))
      \<and> (\<forall>mid cb. map_of (headers fr) ''message-id'' = Some mid \<and> reg = Some cb \<longrightarrow>
            on_message unm m st =
              Return (Some [Result_of cb (With_handles fr mid sid)])
                (emit (Call cb (With_handles fr mid sid)) st)))"
proof (intro conjI impI)
  assume a: "no_id_supplied cs st"
  from subscribe_seq_minting [OF a]
  show "\<exists>st'. subscribe_seq cs st = Return (map sub_id [counter st..<counter st + length cs]) st'"
    by blast
  show "distinct (map sub_id [counter st..<counter st + length cs])"
    by (rule minted_ids_distinct)
next
  assume a: "no_id_supplied cs (init u h)"
  from subscribe_seq_minting [OF a]
  show "\<exists>st'. subscribe_seq cs (init u h) = Return (map sub_id [0..<length cs]) st'"
    by (auto simp: init_def)
next
  assume a: "m \<noteq> newline \<and> unm m = Inr fr \<and> command fr = ''MESSAGE''
        \<and> map_of (headers fr) ''subscription'' = Some sid
        \<and> map_of (subscriptions st) sid = Some reg"
  then show "\<exists>calls. trace (final (on_message unm m st)) = trace st @ calls
          \<and> (\<forall>e \<in> set calls. \<exists>cb a. e = Call cb a \<and> reg = Some cb)"
    by (auto simp: on_message_def split: option.splits)
  from a show "\<forall>mid cb. map_of (headers fr) ''message-id'' = Some mid \<and> reg = Some cb \<longrightarrow>
            on_message unm m st =
              Return (Some [Result_of cb (With_handles fr mid sid)])
                (emit (Call cb (With_handles fr mid sid)) st)"
    by (simp add: on_message_def)
qed

theorem minted_ids_and_routing_witness:
  "(\<exists>st'. subscribe_seq [(''/queue/a'', Some (1::nat), None), (''/queue/b'', Some 2, None)]
             (init ''ws://broker'' (\<lambda>a. [])) = Return [''sub-0'', ''sub-1''] st')
   \<and> on_message
        (\<lambda>m. Inr \<lparr>command = ''MESSAGE'',
                   headers = [(''subscription'', ''sub-0''), (''message-id'', ''42'')], body = m\<rparr>)
        ''x''
        ((init ''ws://broker'' (\<lambda>a. []))\<lparr>subscriptions := [(''sub-0'', Some (1::nat)), (''sub-1'', Some 2)]\<rparr>)
      = Return (Some [Result_of 1 (With_handles \<lparr>command = ''MESSAGE'',
                   headers = [(''subscription'', ''sub-0''), (''message-id'', ''42'')], body = ''x''\<rparr> ''42'' ''sub-0'')])
          ((init ''ws://broker'' (\<lambda>a. []))\<lparr>subscriptions := [(''sub-0'', Some (1::nat)), (''sub-1'', Some 2)],
             trace := [Call 1 (With_handles \<lparr>command = ''MESSAGE'',
                   headers = [(''subscription'', ''sub-0''), (''message-id'', ''42'')], body = ''x''\<rparr> ''42'' ''sub-0'')]\<rparr>)"
proof -
  let ?cs = "[(''/queue/a'', Some (1::nat), None), (''/queue/b'', Some 2, None)]"
  let ?fr = "\<lparr>command = ''MESSAGE'',
                   headers = [(''subscription'', ''sub-0''), (''message-id'', ''42'')], body = ''x''\<rparr>"
  let ?st = "(init ''ws://broker'' (\<lambda>a. []))\<lparr>subscriptions := [(''sub-0'', Some (1::nat)), (''sub-1'', Some 2)]\<rparr>"
  have n: "no_id_supplied ?cs (init ''ws://broker'' (\<lambda>a. []))"
    by (simp add: load_def)
  have ids: "map sub_id [0..<length ?cs] = [''sub-0'', ''sub-1'']"
    by (simp add: sub_id_def str_numeral_examples upt_conv_Cons)
  show ?thesis
    using n ids
      minted_ids_and_routing [of ?cs "init ''ws://broker'' (\<lambda>a. [])" "''ws://broker''" "\<lambda>a. []"
        "''x''" "\<lambda>m. Inr \<lparr>command = ''MESSAGE'',
                   headers = [(''subscription'', ''sub-0''), (''message-id'', ''42'')], body = m\<rparr>"
        ?fr "''sub-0''" "Some 1"]
      minted_ids_and_routing [of "[]" ?st "''ws://broker''" "\<lambda>a. []"
        "''x''" "\<lambda>m. Inr \<lparr>command = ''MESSAGE'',
                   headers = [(''subscription'', ''sub-0''), (''message-id'', ''42'')], body = m\<rparr>"
        ?fr "''sub-0''" "Some 1"]
    by (simp add: newline_def init_def emit_def)
qed

subsection \<open>Disconnecting\<close>

text \<open>
  C2. \<^verbatim>\<open>disconnect\<close> on a client whose registry holds \<open>N\<close> subscriptions (a \<^verbatim>\<open>dict\<close>
  has no key twice). Up to \<^verbatim>\<open>_clean_up\<close> it returns and has appended to the trace one
  UNSUBSCRIBE frame per subscription, \<open>N\<close> in all, each with the header \<^verbatim>\<open>id\<close> of that
  subscription, in the order of the registry, then one DISCONNECT frame, then the close
  of the transport; the registry is empty, \<^verbatim>\<open>connected\<close> is false, and nothing else
  but \<^verbatim>\<open>ws.on_close\<close> has changed. The disconnect callback, when there is one, is called
  on the state so reached and is the last event of the trace.
\<close>

theorem disconnect_unsubscribes_then_disconnects:
  assumes "distinct (map fst (subscriptions st))"
  shows "disconnect_teardown hdrs st =
           Return () (st\<lparr>connected := False, subscriptions := [], ws_on_close := False,
              trace := trace st
                @ map (\<lambda>sid. Ws_send_frame ''UNSUBSCRIBE'' [(''id'', sid)] None)
                    (map fst (subscriptions st))
                @ [Ws_send_frame ''DISCONNECT'' (load hdrs st) None, Ws_close]\<rparr>)
     \<and> length (map (\<lambda>sid. Ws_send_frame ''UNSUBSCRIBE'' [(''id'', sid)] None)
                    (map fst (subscriptions st)))
         = length (subscriptions st)
     \<and> disconnect cb hdrs st =
         (case cb of
            None \<Rightarrow> disconnect_teardown hdrs st
          | Some c \<Rightarrow> Return () (emit (Call c No_args) (final (disconnect_teardown hdrs st))))"
proof -
  have "unsubscribe_all (map fst (subscriptions st)) st =
     Return () (st\<lparr>subscriptions := [],
        trace := trace st @ map (\<lambda>sid. Ws_send_frame ''UNSUBSCRIBE'' [(''id'', sid)] None)
                   (map fst (subscriptions st))\<rparr>)"
    using unsubscribe_all_distinct [OF assms, of st] by (simp add: filter_empty_conv)
  then have td: "disconnect_teardown hdrs st =
           Return () (st\<lparr>connected := False, subscriptions := [], ws_on_close := False,
              trace := trace st
                @ map (\<lambda>sid. Ws_send_frame ''UNSUBSCRIBE'' [(''id'', sid)] None)
                    (map fst (subscriptions st))
                @ [Ws_send_frame ''DISCONNECT'' (load hdrs st) None, Ws_close]\<rparr>)"
    by (simp add: disconnect_teardown_def clean_up_def emit_def transmit_def load_def
        split: option.splits)
  then show ?thesis
    by (simp add: disconnect_def split: option.splits)
qed

theorem disconnect_unsubscribes_then_disconnects_witness:
  "disconnect (Some (7::nat)) None
     ((init ''ws://broker'' (\<lambda>a. []))\<lparr>connected := True,
        subscriptions := [(''sub-0'', Some 1), (''sub-1'', None), (''mine'', Some 2)]\<rparr>)
   = Return () ((init ''ws://broker'' (\<lambda>a. []))\<lparr>ws_on_close := False,
        trace := [Ws_send_frame ''UNSUBSCRIBE'' [(''id'', ''sub-0'')] None,
                  Ws_send_frame ''UNSUBSCRIBE'' [(''id'', ''sub-1'')] None,
                  Ws_send_frame ''UNSUBSCRIBE'' [(''id'', ''mine'')] None,
                  Ws_send_frame ''DISCONNECT'' [] None, Ws_close, Call 7 No_args]\<rparr>)"
  using disconnect_unsubscribes_then_disconnects [of
      "(init ''ws://broker'' (\<lambda>a. []))\<lparr>connected := True,
        subscriptions := [(''sub-0'', Some (1::nat)), (''sub-1'', None), (''mine'', Some 2)]\<rparr>"
      None "Some 7"]
  by (simp add: init_def load_def emit_def)

subsection \<open>Connecting\<close>

text \<open>
  C1. \<^verbatim>\<open>connect\<close> with a timeout \<open>T\<close> in milliseconds, on a client whose flag
  \<^verbatim>\<open>opened\<close> is false.
  When \<open>T\<close> is positive and the transport never signals, \<^verbatim>\<open>connect\<close> does not return:
  it raises \<^verbatim>\<open>TimeoutError\<close> (the code's exception for the spec's ConnectionTimeout), and
  the loop has then slept \<open>250 * (T div 250 + 1)\<close> milliseconds, which is more than
  \<open>T\<close> and at most \<open>T + 250\<close>.
  When the timeout is 0, \<^verbatim>\<open>connect\<close> never raises; it runs forever if the transport
  never signals, and if the flag is first read as true at the \<open>n\<close>-th test of the loop
  condition, the loop ends there, after \<open>250 * n\<close> milliseconds, and \<^verbatim>\<open>connect\<close> returns.
\<close>

theorem connect_timeout_or_wait:
  "(0 < T \<and> \<not> opened st \<and> (\<forall>k. \<not> signalled k) \<longrightarrow>
       connect lg pc ho hs c1 c2 c3 T p signalled st
         = Some (Raise TimeoutError (emit Ws_run_forever st))
     \<and> wait_opened (\<lambda>k. opened st \<or> signalled k) T 0 0
         = Some (Timed_out (250 * (T div 250 + 1)))
     \<and> T < 250 * (T div 250 + 1) \<and> 250 * (T div 250 + 1) \<le> T + 250)
   \<and> (\<forall>e st'. connect lg pc ho hs c1 c2 c3 0 p signalled st \<noteq> Some (Raise e st'))
   \<and> (\<not> opened st \<and> (\<forall>k. \<not> signalled k) \<longrightarrow>
       connect lg pc ho hs c1 c2 c3 0 p signalled st = None)
   \<and> ((opened st \<or> signalled n) \<and> (\<forall>j<n. \<not> (opened st \<or> signalled j)) \<longrightarrow>
       wait_opened (\<lambda>k. opened st \<or> signalled k) 0 0 0 = Some (Opened (250 * int n))
     \<and> (\<exists>st'. connect lg pc ho hs c1 c2 c3 0 p signalled st = Some (Return () st')))"
proof (intro conjI impI allI)
  assume a: "0 < T \<and> \<not> opened st \<and> (\<forall>k. \<not> signalled k)"
  then have w: "wait_opened (\<lambda>k. opened st \<or> signalled k) T 0 0
         = Some (Timed_out (250 * (T div 250 + 1)))"
    by (intro wait_opened_times_out_from_0) simp_all
  then show "wait_opened (\<lambda>k. opened st \<or> signalled k) T 0 0
         = Some (Timed_out (250 * (T div 250 + 1)))" .
  from w show "connect lg pc ho hs c1 c2 c3 T p signalled st
         = Some (Raise TimeoutError (emit Ws_run_forever st))"
    by (simp add: connect_def private_connect_def)
  show "T < 250 * (T div 250 + 1)" by presburger
  show "250 * (T div 250 + 1) \<le> T + 250" by presburger
next
  fix e st'
  show "connect lg pc ho hs c1 c2 c3 0 p signalled st \<noteq> Some (Raise e st')"
  proof (cases "wait_opened (\<lambda>k. opened st \<or> signalled k) 0 0 0")
    case None
    then show ?thesis by (simp add: connect_def private_connect_def)
  next
    case (Some w)
    from wait_opened_Some [OF Some] obtain ms where "w = Opened ms" by auto
    with Some show ?thesis by (simp add: connect_def private_connect_def Let_def)
  qed
next
  assume "\<not> opened st \<and> (\<forall>k. \<not> signalled k)"
  then have "wait_opened (\<lambda>k. opened st \<or> signalled k) 0 0 0 = None"
    by (intro wait_opened_never_read) simp_all
  then show "connect lg pc ho hs c1 c2 c3 0 p signalled st = None"
    by (simp add: connect_def private_connect_def)
next
  assume a: "(opened st \<or> signalled n) \<and> (\<forall>j<n. \<not> (opened st \<or> signalled j))"
  from wait_opened_first_read [of "\<lambda>k. opened st \<or> signalled k" 0 n 0 0] a
  show w: "wait_opened (\<lambda>k. opened st \<or> signalled k) 0 0 0 = Some (Opened (250 * int n))"
    by simp
  then show "\<exists>st'. connect lg pc ho hs c1 c2 c3 0 p signalled st = Some (Return () st')"
    by (simp add: connect_def private_connect_def Let_def)
qed

theorem connect_timeout_or_wait_witness:
  "connect None None None None None None (None :: nat option) 500 0 (\<lambda>k. False)
      (init ''ws://broker'' no_dicts)
     = Some (Raise TimeoutError (emit Ws_run_forever (init ''ws://broker'' no_dicts)))
   \<and> wait_opened (\<lambda>k. False) 500 0 0 = Some (Timed_out 750)
   \<and> connect None None None None None None (None :: nat option) 0 0 (\<lambda>k. False)
        (init ''ws://broker'' no_dicts) = None
   \<and> wait_opened (\<lambda>k. 2 \<le> k) 0 0 0 = Some (Opened 500)"
  using connect_timeout_or_wait [of 500 "init ''ws://broker'' no_dicts :: nat client" "\<lambda>k. False"
      None None None None None None None 0 0]
    connect_timeout_or_wait [of 500 "init ''ws://broker'' no_dicts :: nat client" "\<lambda>k. 2 \<le> k"
      None None None None None None None 0 2]
  by (simp add: init_def)

text \<open>
  C8. The CONNECT frame. The claim that the frame carries \<^verbatim>\<open>login\<close> and \<^verbatim>\<open>passcode\<close>
  exactly when the arguments are supplied fails when the caller's own headers hold such
  a key: \<^verbatim>\<open>connect(headers={'login': 'guest'})\<close>, with no \<^verbatim>\<open>login\<close> argument, sends the
  header \<^verbatim>\<open>login:guest\<close>.
\<close>

theorem connect_login_header_counterexample:
  "map_option (\<lambda>out. trace (final out))
     (connect None None None (Some 0) None None (None :: nat option) 0 0 at_once
        (init ''ws://broker'' (no_dicts(0 := [(''login'', ''guest'')]))))
   = Some [Ws_run_forever,
           Ws_send_frame ''CONNECT''
             [(''login'', ''guest''), (''host'', ''ws://broker''),
              (''accept-version'', ''1.0,1.1,1.2''), (''heart-beat'', ''0,0'')] None]"
  by (simp add: connect_def private_connect_def wait_opened_now at_once_def init_def Let_def
      load_def store_def transmit_def emit_def VERSIONS_def str_numeral_examples)

text \<open>
  C8, as the code has it. A \<^verbatim>\<open>connect\<close> that returns has started the transport and sent
  one CONNECT frame, whose headers have \<^verbatim>\<open>host\<close> (the argument, or the url of the client
  when the argument is absent), \<^verbatim>\<open>accept-version\<close> with the value 1.0,1.1,1.2, and
  \<^verbatim>\<open>heart-beat\<close> with twice the decimal numeral of 1000 times the heartbeat interval,
  separated by a comma, whatever the caller's dictionary held under these three keys.
  \<^verbatim>\<open>login\<close> and \<^verbatim>\<open>passcode\<close> hold the arguments when these are supplied; when one is
  not, the frame has that header exactly when the caller's dictionary has it, with the
  caller's value. Every other key is as in the caller's dictionary.
\<close>

theorem connect_frame_headers:
  assumes "connect login passcode host hdrs c1 c2 c3 T p signalled st = Some (Return () st')"
  shows "\<exists>h. trace st' = trace st @ [Ws_run_forever, Ws_send_frame ''CONNECT'' h None]
     \<and> map_of h ''host'' = Some (case host of None \<Rightarrow> url st | Some x \<Rightarrow> x)
     \<and> map_of h ''accept-version'' = Some ''1.0,1.1,1.2''
     \<and> map_of h ''heart-beat'' = Some (str (p * 1000) @ '','' @ str (p * 1000))
     \<and> map_of h ''login'' = (case login of None \<Rightarrow> map_of (load hdrs st) ''login'' | Some l \<Rightarrow> Some l)
     \<and> map_of h ''passcode'' =
          (case passcode of None \<Rightarrow> map_of (load hdrs st) ''passcode'' | Some q \<Rightarrow> Some q)
     \<and> (\<forall>k. k \<notin> {''host'', ''accept-version'', ''heart-beat'', ''login'', ''passcode''}
            \<longrightarrow> map_of h k = map_of (load hdrs st) k)"
proof -
  from connect_returns [OF assms] obtain h5
    where st': "st' = (store hdrs h5 (emit Ws_run_forever st))
            \<lparr>opened := True, connectCallback := c1, errorCallback := c2, pingCallback := Some c3,
              trace := trace st @ [Ws_run_forever, Ws_send_frame ''CONNECT'' h5 None]\<rparr>"
      and h5: "h5 = (case passcode of None \<Rightarrow> (\<lambda>d. d) | Some q \<Rightarrow> AList.update ''passcode'' q)
                ((case login of None \<Rightarrow> (\<lambda>d. d) | Some l \<Rightarrow> AList.update ''login'' l)
                  (AList.update ''heart-beat'' (str (p * 1000) @ '','' @ str (p * 1000))
                    (AList.update ''accept-version'' VERSIONS
                      (AList.update ''host'' (case host of None \<Rightarrow> url st | Some x \<Rightarrow> x)
                        (load hdrs st)))))"
    by blast
  have "trace st' = trace st @ [Ws_run_forever, Ws_send_frame ''CONNECT'' h5 None]"
    by (simp add: st')
  moreover have "map_of h5 ''host'' = Some (case host of None \<Rightarrow> url st | Some x \<Rightarrow> x)"
    by (simp add: h5 AList.update_conv' split: option.splits)
  moreover have "map_of h5 ''accept-version'' = Some ''1.0,1.1,1.2''"
    by (simp add: h5 AList.update_conv' VERSIONS_def split: option.splits)
  moreover have "map_of h5 ''heart-beat'' = Some (str (p * 1000) @ '','' @ str (p * 1000))"
    by (simp add: h5 AList.update_conv' split: option.splits)
  moreover have "map_of h5 ''login'' = (case login of None \<Rightarrow> map_of (load hdrs st) ''login'' | Some l \<Rightarrow> Some l)"
    by (simp add: h5 AList.update_conv' split: option.splits)
  moreover have "map_of h5 ''passcode'' =
          (case passcode of None \<Rightarrow> map_of (load hdrs st) ''passcode'' | Some q \<Rightarrow> Some q)"
    by (simp add: h5 AList.update_conv' split: option.splits)
  moreover have "\<forall>k. k \<notin> {''host'', ''accept-version'', ''heart-beat'', ''login'', ''passcode''}
            \<longrightarrow> map_of h5 k = map_of (load hdrs st) k"
    by (simp add: h5 AList.update_conv' split: option.splits)
  ultimately show ?thesis by blast
qed

theorem connect_frame_headers_witness:
  "connect (Some ''bob'') (Some ''pw'') None None None None (None :: nat option) 0 5 at_once
      (init ''ws://broker'' no_dicts)
     = Some (Return () ((init ''ws://broker'' no_dicts)\<lparr>opened := True, pingCallback := Some None,
          trace := [Ws_run_forever,
                    Ws_send_frame ''CONNECT''
                      [(''host'', ''ws://broker''), (''accept-version'', ''1.0,1.1,1.2''),
                       (''heart-beat'', ''5000,5000''), (''login'', ''bob''), (''passcode'', ''pw'')]
                      None]\<rparr>))
   \<and> (\<exists>h. [Ws_run_forever,
            Ws_send_frame ''CONNECT''
              [(''host'', ''ws://broker''), (''accept-version'', ''1.0,1.1,1.2''),
               (''heart-beat'', ''5000,5000''), (''login'', ''bob''), (''passcode'', ''pw'')] None]
           = [Ws_run_forever, Ws_send_frame ''CONNECT'' h None]
        \<and> map_of h ''host'' = Some ''ws://broker''
        \<and> map_of h ''accept-version'' = Some ''1.0,1.1,1.2''
        \<and> map_of h ''heart-beat'' = Some ''5000,5000''
        \<and> map_of h ''login'' = Some ''bob''
        \<and> map_of h ''passcode'' = Some ''pw'')"
proof -
  have c: "connect (Some ''bob'') (Some ''pw'') None None None None (None :: nat option) 0 5 at_once
      (init ''ws://broker'' no_dicts)
     = Some (Return () ((init ''ws://broker'' no_dicts)\<lparr>opened := True, pingCallback := Some None,
          trace := [Ws_run_forever,
                    Ws_send_frame ''CONNECT''
                      [(''host'', ''ws://broker''), (''accept-version'', ''1.0,1.1,1.2''),
                       (''heart-beat'', ''5000,5000''), (''login'', ''bob''), (''passcode'', ''pw'')]
                      None]\<rparr>))"
    by (simp add: connect_def private_connect_def wait_opened_now at_once_def init_def Let_def
      load_def store_def transmit_def emit_def VERSIONS_def str_5000)
  from connect_frame_headers [OF c] c show ?thesis
    by (simp add: init_def load_def str_5000)
qed

subsection \<open>The flag \<^verbatim>\<open>connected\<close>\<close>

text \<open>
  C9. In every transition of the engine, from any state (so from every reachable one):
  if \<^verbatim>\<open>connected\<close> is false before and true after, the transition is the dispatch of an
  inbound message that is not a heartbeat and that the parser reads as a frame with the
  command CONNECTED; and after a transition of the transport's close callback
  \<^verbatim>\<open>connected\<close> is false.
\<close>

theorem connected_set_only_by_CONNECTED:
  assumes "step unm st a st'"
  shows "(connected st' \<and> \<not> connected st \<longrightarrow>
            (\<exists>m fr. a = Transport_message m \<and> m \<noteq> newline \<and> unm m = Inr fr
               \<and> command fr = ''CONNECTED''))
       \<and> (a = Transport_close \<longrightarrow> \<not> connected st')"
  using assms
proof cases
  case (s_message m)
  then show ?thesis using on_message_connected [of unm m st] by auto
next
  case (s_connect lg pc ho hs c1 c2 c3 t p sg out)
  then show ?thesis using connect_connected [of lg pc ho hs c1 c2 c3 t p sg st out] by auto
next
  case (s_disconnect cb hs)
  then show ?thesis using disconnect_connected [of cb hs st] by auto
qed (simp_all add: operations_connected)

theorem connected_set_only_by_CONNECTED_witness:
  "\<not> connected (on_close ((init ''ws://broker'' no_dicts :: nat client)\<lparr>connected := True\<rparr>))
   \<and> connected (final (on_message (\<lambda>m. Inr \<lparr>command = ''CONNECTED'', headers = [], body = m\<rparr>)
                          ''c'' (init ''ws://broker'' no_dicts :: nat client)))
   \<and> (\<exists>m fr. Transport_message ''c'' = (Transport_message m :: nat action) \<and> m \<noteq> newline
          \<and> Inr \<lparr>command = ''CONNECTED'', headers = [], body = m\<rparr> = Inr fr
          \<and> command fr = ''CONNECTED'')"
proof -
  let ?unm = "\<lambda>m. Inr \<lparr>command = ''CONNECTED'', headers = [], body = m\<rparr>"
  let ?st = "init ''ws://broker'' no_dicts :: nat client"
  have "ws_on_close (?st\<lparr>connected := True\<rparr>)" by (simp add: init_def)
  from connected_set_only_by_CONNECTED [OF s_close [OF this, of ?unm]]
  have 1: "\<not> connected (on_close (?st\<lparr>connected := True\<rparr>))" by simp
  have 2: "connected (final (on_message ?unm ''c'' ?st))"
    by (simp add: on_message_def newline_def init_def)
  have 3: "\<not> connected ?st" by (simp add: init_def)
  from connected_set_only_by_CONNECTED [OF s_message [of ?unm ?st "''c''"]] 2 3
  have "\<exists>m fr. Transport_message ''c'' = (Transport_message m :: nat action) \<and> m \<noteq> newline
          \<and> ?unm m = Inr fr \<and> command fr = ''CONNECTED''"
    by blast
  with 1 2 show ?thesis by simp
qed

subsection \<open>The caller's headers\<close>

text \<open>
  C10. The claim that every public operation taking a \<^verbatim>\<open>headers\<close> dictionary writes to it
  fails for \<^verbatim>\<open>disconnect\<close>, which takes one and only reads it: after
  \<^verbatim>\<open>disconnect(None, h)\<close> the dictionary \<^verbatim>\<open>h\<close> is as it was.
\<close>

theorem disconnect_leaves_headers_counterexample:
  "heap (final (disconnect (None :: nat option) (Some 0)
                  (init ''ws://broker'' (no_dicts(0 := [(''receipt'', ''77'')]))))) 0
   = [(''receipt'', ''77'')]"
  by (simp add: disconnect_def disconnect_teardown_def init_def clean_up_def transmit_def
      emit_def load_def)

text \<open>
  C10, as the code has it. \<open>a\<close> is the address of the dictionary the caller passes.
  \<^verbatim>\<open>subscribe\<close> returns, and then that dictionary has \<^verbatim>\<open>id\<close> with the id returned and
  \<^verbatim>\<open>destination\<close> with the destination, its other keys being as before; after \<^verbatim>\<open>send\<close>
  it is the old dictionary with \<^verbatim>\<open>destination\<close> set; after \<^verbatim>\<open>ack\<close> and after \<^verbatim>\<open>nack\<close> it is
  the old one with \<^verbatim>\<open>message-id\<close> and \<^verbatim>\<open>subscription\<close> set to the arguments, whatever
  they were before; after a \<^verbatim>\<open>connect\<close> that returns it has \<^verbatim>\<open>host\<close>,
  \<^verbatim>\<open>accept-version\<close> and \<^verbatim>\<open>heart-beat\<close> with the values sent. \<^verbatim>\<open>disconnect\<close> changes no
  dictionary of the caller.
\<close>

theorem headers_written_in_place:
  "(\<exists>sid u st'. subscribe d cb (Some a) st = Return (sid, u) st'
        \<and> map_of (heap st' a) ''id'' = Some sid
        \<and> map_of (heap st' a) ''destination'' = Some d
        \<and> (\<forall>k. k \<noteq> ''id'' \<and> k \<noteq> ''destination'' \<longrightarrow> map_of (heap st' a) k = map_of (heap st a) k))
   \<and> map_of (heap (send d (Some a) b st) a) = (map_of (heap st a))(''destination'' \<mapsto> d)
   \<and> map_of (heap (ack m s (Some a) st) a)
        = (map_of (heap st a))(''message-id'' \<mapsto> m, ''subscription'' \<mapsto> s)
   \<and> map_of (heap (nack m s (Some a) st) a)
        = (map_of (heap st a))(''message-id'' \<mapsto> m, ''subscription'' \<mapsto> s)
   \<and> (\<forall>st'. connect lg pc ho (Some a) c1 c2 c3 T p sg st = Some (Return () st') \<longrightarrow>
         map_of (heap st' a) ''host'' = Some (case ho of None \<Rightarrow> url st | Some x \<Rightarrow> x)
       \<and> map_of (heap st' a) ''accept-version'' = Some VERSIONS
       \<and> map_of (heap st' a) ''heart-beat'' = Some (str (p * 1000) @ '','' @ str (p * 1000)))
   \<and> heap (final (disconnect cb' hs st)) = heap st"
proof (intro conjI allI impI)
  show "\<exists>sid u st'. subscribe d cb (Some a) st = Return (sid, u) st'
        \<and> map_of (heap st' a) ''id'' = Some sid
        \<and> map_of (heap st' a) ''destination'' = Some d
        \<and> (\<forall>k. k \<noteq> ''id'' \<and> k \<noteq> ''destination'' \<longrightarrow> map_of (heap st' a) k = map_of (heap st a) k)"
    by (cases "map_of (heap st a) ''id''")
      (auto simp: subscribe_def Let_def load_def store_def transmit_def AList.update_conv'
        map_of_eq_None_iff)
  show "map_of (heap (send d (Some a) b st) a) = (map_of (heap st a))(''destination'' \<mapsto> d)"
    by (simp add: send_def Let_def load_def store_def transmit_def AList.update_conv')
  show "map_of (heap (ack m s (Some a) st) a)
        = (map_of (heap st a))(''message-id'' \<mapsto> m, ''subscription'' \<mapsto> s)"
    by (simp add: ack_def Let_def load_def store_def transmit_def AList.update_conv')
  show "map_of (heap (nack m s (Some a) st) a)
        = (map_of (heap st a))(''message-id'' \<mapsto> m, ''subscription'' \<mapsto> s)"
    by (simp add: nack_def Let_def load_def store_def transmit_def AList.update_conv')
next
  fix st'
  assume c: "connect lg pc ho (Some a) c1 c2 c3 T p sg st = Some (Return () st')"
  from connect_returns [OF c] obtain h5
    where st': "st' = (store (Some a) h5 (emit Ws_run_forever st))
            \<lparr>opened := True, connectCallback := c1, errorCallback := c2, pingCallback := Some c3,
              trace := trace st @ [Ws_run_forever, Ws_send_frame ''CONNECT'' h5 None]\<rparr>"
      and h5: "h5 = (case pc of None \<Rightarrow> (\<lambda>d. d) | Some q \<Rightarrow> AList.update ''passcode'' q)
                ((case lg of None \<Rightarrow> (\<lambda>d. d) | Some l \<Rightarrow> AList.update ''login'' l)
                  (AList.update ''heart-beat'' (str (p * 1000) @ '','' @ str (p * 1000))
                    (AList.update ''accept-version'' VERSIONS
                      (AList.update ''host'' (case ho of None \<Rightarrow> url st | Some x \<Rightarrow> x)
                        (load (Some a) st)))))"
    by blast
  have heap: "heap st' a = h5" by (simp add: st' store_def)
  show "map_of (heap st' a) ''host'' = Some (case ho of None \<Rightarrow> url st | Some x \<Rightarrow> x)"
    unfolding heap by (simp add: h5 AList.update_conv' split: option.splits)
  show "map_of (heap st' a) ''accept-version'' = Some VERSIONS"
    unfolding heap by (simp add: h5 AList.update_conv' split: option.splits)
  show "map_of (heap st' a) ''heart-beat'' = Some (str (p * 1000) @ '','' @ str (p * 1000))"
    unfolding heap by (simp add: h5 AList.update_conv' split: option.splits)
next
  show "heap (final (disconnect cb' hs st)) = heap st"
    using unsubscribe_all_frame(1) [of "map fst (subscriptions st)" st]
    by (auto simp: disconnect_def disconnect_teardown_def clean_up_def transmit_def
        split: outcome.splits option.splits)
qed

theorem headers_written_in_place_witness:
  "connect None None None (Some 0) None None (None :: nat option) 0 0 at_once
      (init ''ws://broker'' (no_dicts(0 := [(''receipt'', ''77'')])))
     = Some (Return () ((init ''ws://broker''
          (no_dicts(0 := [(''receipt'', ''77''), (''host'', ''ws://broker''),
                          (''accept-version'', ''1.0,1.1,1.2''), (''heart-beat'', ''0,0'')])))
          \<lparr>opened := True, pingCallback := Some None,
            trace := [Ws_run_forever,
                      Ws_send_frame ''CONNECT''
                        [(''receipt'', ''77''), (''host'', ''ws://broker''),
                         (''accept-version'', ''1.0,1.1,1.2''), (''heart-beat'', ''0,0'')] None]\<rparr>))
   \<and> map_of [(''receipt'', ''77''), (''host'', ''ws://broker''),
              (''accept-version'', ''1.0,1.1,1.2''), (''heart-beat'', ''0,0'')] ''host''
       = Some ''ws://broker''"
proof -
  let ?S = "(init ''ws://broker''
          (no_dicts(0 := [(''receipt'', ''77''), (''host'', ''ws://broker''),
                          (''accept-version'', ''1.0,1.1,1.2''), (''heart-beat'', ''0,0'')])))
          \<lparr>opened := True, pingCallback := Some (None :: nat option),
            trace := [Ws_run_forever,
                      Ws_send_frame ''CONNECT''
                        [(''receipt'', ''77''), (''host'', ''ws://broker''),
                         (''accept-version'', ''1.0,1.1,1.2''), (''heart-beat'', ''0,0'')] None]\<rparr>"
  have c: "connect None None None (Some 0) None None (None :: nat option) 0 0 at_once
      (init ''ws://broker'' (no_dicts(0 := [(''receipt'', ''77'')]))) = Some (Return () ?S)"
    by (simp add: connect_def private_connect_def wait_opened_now at_once_def init_def Let_def
      load_def store_def transmit_def emit_def VERSIONS_def str_numeral_examples)
  from headers_written_in_place [of "''/queue/a''" None 0
      "init ''ws://broker'' (no_dicts(0 := [(''receipt'', ''77'')]))" None "''1''" "''sub-0''"
      None None None None None None 0 0 at_once None None] c
  have "map_of (heap ?S 0) ''host'' = Some ''ws://broker''"
    by (simp add: init_def)
  with c show ?thesis by (simp add: init_def)
qed

end
